theory Spec2Isabelle
  imports Main "HOL-Library.AList"
begin

section \<open>Python values used by pipeline.py\<close>

subsection \<open>Exceptions\<close>

text \<open>
  The classes the pipeline raises or handles. A subclass is represented by the nearest
  class listed here. \<open>SystemExit\<close> (what the builtin \<open>exit(code)\<close> raises) and
  \<open>KeyboardInterrupt\<close> derive from BaseException only, so \<open>except Exception\<close> does not
  handle them, while a bare \<open>except:\<close> does.
\<close>

datatype exc_class =
    ValueError | TypeError | IndexError | AttributeError | UnboundLocalError
  | FileExistsError | OtherException string
  | SystemExit int | KeyboardInterrupt

datatype exc = Exc (cls: exc_class) (msg: string)

fun is_Exception :: "exc_class \<Rightarrow> bool" where
  "is_Exception (SystemExit code) = False"
| "is_Exception KeyboardInterrupt = False"
| "is_Exception c = True"

definition is_ValueError :: "exc_class \<Rightarrow> bool" where
  "is_ValueError c = (c = ValueError)"

definition any_exception :: "exc_class \<Rightarrow> bool" where
  \<comment> \<open>a bare \<open>except:\<close> clause\<close>
  "any_exception c = True"

subsection \<open>Strings and paths\<close>

definition digit_char :: "nat \<Rightarrow> char" where
  "digit_char d = ''0123456789'' ! (d mod 10)"

function str_nat :: "nat \<Rightarrow> string" where
  "str_nat n = (if n < 10 then [digit_char n] else str_nat (n div 10) @ [digit_char (n mod 10)])"
  by pat_completeness auto
termination
  by (relation "measure id") auto

declare str_nat.simps [simp del]

definition str_int :: "int \<Rightarrow> string" where
  \<comment> \<open>\<open>str(i)\<close> of a Python int\<close>
  "str_int i = (if i < 0 then CHR ''-'' # str_nat (nat (- i)) else str_nat (nat i))"

fun join_with :: "string \<Rightarrow> string list \<Rightarrow> string" where
  "join_with sep [] = []"
| "join_with sep [s] = s"
| "join_with sep (s # t # ss) = s @ sep @ join_with sep (t # ss)"

definition str_int_list :: "int list \<Rightarrow> string" where
  \<comment> \<open>\<open>str(xs)\<close> of a Python list of ints, e.g. \<open>[2, 3, 4]\<close>\<close>
  "str_int_list xs = ''['' @ join_with '', '' (map str_int xs) @ '']''"

definition py_range :: "int \<Rightarrow> int \<Rightarrow> int list" where
  \<comment> \<open>\<open>list(range(a, b))\<close>\<close>
  "py_range a b = [a..b - 1]"

definition basename :: "string \<Rightarrow> string" where
  \<comment> \<open>\<open>os.path.basename\<close>: what follows the last slash\<close>
  "basename p = rev (takeWhile (\<lambda>c. c \<noteq> CHR ''/'') (rev p))"

definition os_path_split :: "string \<Rightarrow> string \<times> string" where
  \<comment> \<open>\<open>os.path.split\<close>: the head loses its trailing slashes unless it consists of slashes\<close>
  "os_path_split p =
     (let tail = basename p;
          head = take (length p - length tail) p
      in (if head \<noteq> [] \<and> (\<exists>c \<in> set head. c \<noteq> CHR ''/'')
          then rev (dropWhile (\<lambda>c. c = CHR ''/'') (rev head)) else head, tail))"

fun os_path_join2 :: "string \<Rightarrow> string \<Rightarrow> string" where
  "os_path_join2 path b =
     (if b \<noteq> [] \<and> hd b = CHR ''/'' then b
      else if path = [] \<or> last path = CHR ''/'' then path @ b
      else path @ ''/'' @ b)"

definition os_path_join :: "string \<Rightarrow> string list \<Rightarrow> string" where
  \<comment> \<open>\<open>os.path.join(a, *p)\<close>\<close>
  "os_path_join a p = foldl os_path_join2 a p"

fun split_on :: "char \<Rightarrow> string \<Rightarrow> string list" where
  "split_on sep [] = [[]]"
| "split_on sep (x # xs) =
     (if x = sep then [] # split_on sep xs
      else (case split_on sep xs of w # ws \<Rightarrow> (x # w) # ws | [] \<Rightarrow> [[x]]))"

function str_replace :: "string \<Rightarrow> string \<Rightarrow> string \<Rightarrow> string" where
  "str_replace old new [] = []"
| "str_replace old new (c # cs) =
     (if old \<noteq> [] \<and> take (length old) (c # cs) = old
      then new @ str_replace old new (drop (length old) (c # cs))
      else c # str_replace old new cs)"
  by pat_completeness auto
termination
  by (relation "measure (\<lambda>(old, new, s). length s)") (auto simp: neq_Nil_conv)

subsection \<open>numpy arrays\<close>

datatype dtype = Float16 | Float32 | Float64 | UInt8 | OtherDtype string

text \<open>
  An array is its shape, its element type and its elements in row-major order. The
  elements are of an abstract type \<open>'a\<close>; conversions between element types are
  parameters of the model.
\<close>

record 'a ndarray =
  shape :: "nat list"
  dtype :: dtype
  data :: "'a list"

record 'a numpy =
  result_type :: "dtype list \<Rightarrow> dtype"
  convert :: "dtype \<Rightarrow> dtype \<Rightarrow> 'a \<Rightarrow> 'a"

definition astype :: "'a numpy \<Rightarrow> dtype \<Rightarrow> 'a ndarray \<Rightarrow> 'a ndarray" where
  "astype np dt a = a\<lparr>dtype := dt, data := map (convert np (dtype a) dt) (data a)\<rparr>"

definition new_axis0 :: "'a ndarray \<Rightarrow> 'a ndarray" where
  \<comment> \<open>\<open>a[None, ]\<close>\<close>
  "new_axis0 a = a\<lparr>shape := 1 # shape a\<rparr>"

definition atleast_2d :: "'a ndarray \<Rightarrow> 'a ndarray" where
  "atleast_2d a =
     (case shape a of [] \<Rightarrow> a\<lparr>shape := [1, 1]\<rparr> | [n] \<Rightarrow> a\<lparr>shape := [1, n]\<rparr> | _ \<Rightarrow> a)"

definition concatenate0 :: "'a numpy \<Rightarrow> 'a ndarray list \<Rightarrow> exc + 'a ndarray" where
  \<comment> \<open>\<open>np.concatenate(arrs, 0)\<close> of arrays with at least one axis\<close>
  "concatenate0 np arrs =
     (case arrs of
        [] \<Rightarrow> Inl (Exc ValueError ''need at least one array to concatenate'')
      | a # rest \<Rightarrow>
          if \<exists>b \<in> set rest. length (shape b) \<noteq> length (shape a)
          then Inl (Exc ValueError ''all the input arrays must have same number of dimensions'')
          else if \<exists>b \<in> set rest. tl (shape b) \<noteq> tl (shape a)
          then Inl (Exc ValueError ''all the input array dimensions except for the concatenation axis must match exactly'')
          else let dt = result_type np (map dtype arrs)
               in Inr \<lparr>shape = sum_list (map (\<lambda>b. hd (shape b)) arrs) # tl (shape a),
                       dtype = dt,
                       data = concat (map (\<lambda>b. map (convert np (dtype b) dt) (data b)) arrs)\<rparr>)"

definition vstack :: "'a numpy \<Rightarrow> 'a ndarray list \<Rightarrow> exc + 'a ndarray" where
  "vstack np arrs = concatenate0 np (map atleast_2d arrs)"

definition from_end :: "'a ndarray \<Rightarrow> nat \<Rightarrow> exc + 'a ndarray" where
  \<comment> \<open>\<open>a[-k]\<close> for \<open>k > 0\<close>: the k-th last sub-array along the first axis\<close>
  "from_end a k =
     (case shape a of
        [] \<Rightarrow> Inl (Exc IndexError ''too many indices for array'')
      | n # rest \<Rightarrow>
          if k > n then Inl (Exc IndexError ''index out of bounds'')
          else let sz = prod_list rest
               in Inr \<lparr>shape = rest, dtype = dtype a,
                       data = take sz (drop ((n - k) * sz) (data a))\<rparr>)"

definition len_array :: "'a ndarray \<Rightarrow> exc + nat" where
  \<comment> \<open>\<open>len(a)\<close>\<close>
  "len_array a =
     (case shape a of [] \<Rightarrow> Inl (Exc TypeError ''len() of unsized object'') | n # rest \<Rightarrow> Inr n)"


section \<open>Effects: collaborators, console and file system\<close>

datatype collaborator =
    GetSwath | GetSwathRgb | FillAllChannels | GetChannels | GetCloudMask
  | GetCloudsatMask | SampleTiles | GetFileTimeInfo | SaveAsNc

text \<open>
  What a run can change or leave behind: the file system (of an abstract type, changed
  only through the operations of the environment below), the lines printed to the
  console, and the trace of calls into the modules under \<open>src\<close> and \<open>netcdf\<close>.
\<close>

record 'fs world =
  files :: 'fs
  console :: "string list"
  calls :: "collaborator list"

type_synonym ('r, 'fs) prog = "'fs world \<Rightarrow> (exc + 'r) \<times> 'fs world"

definition returns :: "'r \<Rightarrow> ('r, 'fs) prog" where
  "returns x = (\<lambda>w. (Inr x, w))"

definition raises :: "exc \<Rightarrow> ('r, 'fs) prog" where
  "raises e = (\<lambda>w. (Inl e, w))"

definition and_then :: "('r, 'fs) prog \<Rightarrow> ('r \<Rightarrow> ('s, 'fs) prog) \<Rightarrow> ('s, 'fs) prog" where
  "and_then m f = (\<lambda>w. case m w of (Inl e, w') \<Rightarrow> (Inl e, w') | (Inr x, w') \<Rightarrow> f x w')"

definition lift :: "exc + 'r \<Rightarrow> ('r, 'fs) prog" where
  \<comment> \<open>a computation without effect that returns or raises\<close>
  "lift r = (\<lambda>w. (r, w))"

definition invoke :: "collaborator \<Rightarrow> exc + 'r \<Rightarrow> ('r, 'fs) prog" where
  \<comment> \<open>a call of a collaborator, with the outcome the collaborator gives\<close>
  "invoke c r = (\<lambda>w. (r, w\<lparr>calls := calls w @ [c]\<rparr>))"

definition print_line :: "string \<Rightarrow> (unit, 'fs) prog" where
  "print_line s = (\<lambda>w. (Inr (), w\<lparr>console := console w @ [s]\<rparr>))"

definition py_if :: "bool \<Rightarrow> (unit, 'fs) prog \<Rightarrow> (unit, 'fs) prog" where
  "py_if b m = (if b then m else returns ())"

definition fs_op :: "('fs \<Rightarrow> (exc + 'r) \<times> 'fs) \<Rightarrow> ('r, 'fs) prog" where
  "fs_op f = (\<lambda>w. case f (files w) of (r, fs') \<Rightarrow> (r, w\<lparr>files := fs'\<rparr>))"

definition fs_read :: "('fs \<Rightarrow> 'r) \<Rightarrow> ('r, 'fs) prog" where
  "fs_read f = (\<lambda>w. (Inr (f (files w)), w))"

definition catch ::
  "(exc_class \<Rightarrow> bool) \<Rightarrow> ('r, 'fs) prog \<Rightarrow> (exc \<Rightarrow> ('r, 'fs) prog) \<Rightarrow> ('r, 'fs) prog" where
  \<comment> \<open>\<open>try: body  except <classes> as e: handler\<close>\<close>
  "catch handles body handler =
     (\<lambda>w. case body w of
             (Inl e, w') \<Rightarrow> if handles (cls e) then handler e w' else (Inl e, w')
           | (Inr x, w') \<Rightarrow> (Inr x, w'))"

text \<open>
  The third value returned by the track aligner: a dict from variable names to values,
  \<open>None\<close>, or some other object on which the call of \<open>update\<close> raises the given
  exception.
\<close>

datatype 'v info = InfoDict "(string \<times> 'v) list" | InfoNone | InfoOther exc

text \<open>
  The functions \<open>pipeline.py\<close> imports and calls, each with the outcome it has in the run
  at hand. Calls that read input files are functions of their arguments; calls that
  write take the file system and give it back. \<open>interp_elapsed\<close> and \<open>align_elapsed\<close>
  are the texts of the two differences \<open>t2 - t1\<close> of \<open>time.time()\<close>.
  \<open>image_save path a\<close> stands for
  \<open>Image.fromarray(a.transpose(1, 2, 0).astype(np.uint8), mode="RGB").save(path)\<close>,
  \<open>rglob fs dir pat\<close> for \<open>Path(dir).rglob(pat)\<close>.
\<close>

record ('a, 'v, 'fs) env =
  numpy_api :: "'a numpy"
  get_swath :: "string \<Rightarrow> string \<Rightarrow> exc + 'a ndarray"
  get_swath_rgb :: "string \<Rightarrow> string \<Rightarrow> exc + 'a ndarray"
  fill_all_channels :: "'a ndarray \<Rightarrow> exc + 'a ndarray \<times> int list"
  get_channels :: "string \<Rightarrow> string \<Rightarrow> exc + 'a ndarray"
  get_cloud_mask :: "string \<Rightarrow> string \<Rightarrow> exc + 'a ndarray"
  get_cloudsat_mask ::
    "string \<Rightarrow> string \<Rightarrow> string \<Rightarrow> 'a ndarray \<Rightarrow> 'a ndarray \<Rightarrow> exc + 'v \<times> 'v \<times> 'v info"
  sample_labelled_and_unlabelled_tiles ::
    "'a ndarray \<Rightarrow> int \<Rightarrow> exc + 'a ndarray \<times> 'a ndarray \<times> 'a ndarray \<times> 'a ndarray"
  get_file_time_info :: "string \<Rightarrow> exc + string \<times> string \<times> string \<times> string"
  save_as_nc ::
    "'a ndarray \<Rightarrow> (string \<times> 'v) list option \<Rightarrow> string \<Rightarrow> string \<Rightarrow> 'fs \<Rightarrow> (exc + unit) \<times> 'fs"
  path_exists :: "string \<Rightarrow> 'fs \<Rightarrow> bool"
  makedirs :: "string \<Rightarrow> 'fs \<Rightarrow> (exc + unit) \<times> 'fs"
  np_save :: "string \<Rightarrow> 'a ndarray \<Rightarrow> 'fs \<Rightarrow> (exc + unit) \<times> 'fs"
  image_save :: "string \<Rightarrow> 'a ndarray \<Rightarrow> 'fs \<Rightarrow> (exc + unit) \<times> 'fs"
  rglob :: "string \<Rightarrow> string \<Rightarrow> 'fs \<Rightarrow> string list"
  interp_elapsed :: string
  align_elapsed :: string

section \<open>extract_full_swath\<close>

definition usability_tag :: "int list \<Rightarrow> string" where
  \<comment> \<open>lines 44 to 54\<close>
  "usability_tag filled_ch_idx =
     (if length filled_ch_idx = 15 then ''daylight''
      else if filled_ch_idx = py_range 2 7 @ py_range 8 15 then ''night''
      else ''corrupt'')"

definition align ::
  "('a, 'v, 'fs) env \<Rightarrow> string \<Rightarrow> string \<Rightarrow> string \<Rightarrow> 'a ndarray
     \<Rightarrow> ('v \<times> 'v \<times> 'v info, 'fs) prog" where
  \<comment> \<open>line 76: the two coordinate channels are taken, then the aligner is called\<close>
  "align env myd02_filename cloudsat_lidar_dir cloudsat_dir np_swath =
     and_then (lift (from_end np_swath 2)) (\<lambda>lat.
     and_then (lift (from_end np_swath 1)) (\<lambda>lon.
     invoke GetCloudsatMask
       (get_cloudsat_mask env myd02_filename cloudsat_lidar_dir cloudsat_dir lat lon)))"

definition dict_update_call :: "('v \<times> 'v \<times> 'v info) option \<Rightarrow> exc + (string \<times> 'v) list" where
  \<comment> \<open>line 91; the argument is \<open>None\<close> when the three names of line 76 are unbound\<close>
  "dict_update_call aligned =
     (case aligned of
        None \<Rightarrow> Inl (Exc UnboundLocalError ''local variable cloudsat_info referenced before assignment'')
      | Some (cs_range, mapping, cloudsat_info) \<Rightarrow>
          (case cloudsat_info of
             InfoNone \<Rightarrow> Inl (Exc AttributeError ''NoneType object has no attribute update'')
           | InfoOther e \<Rightarrow> Inl e
           | InfoDict d \<Rightarrow>
               Inr (AList.update ''mapping'' mapping (AList.update ''width-range'' cs_range d))))"

definition extract_full_swath ::
  "('a, 'v, 'fs) env \<Rightarrow> string \<Rightarrow> string \<Rightarrow> string \<Rightarrow> string \<Rightarrow> string \<Rightarrow> string \<Rightarrow> int
     \<Rightarrow> ('a ndarray \<times> (string \<times> 'v) list option \<times> string \<times> string, 'fs) prog" where
  "extract_full_swath env myd02_filename myd03_dir myd06_dir myd35_dir cloudsat_lidar_dir
       cloudsat_dir verbose =
     (let filename = basename myd02_filename in
      and_then (invoke GetSwath (get_swath env myd02_filename myd03_dir)) (\<lambda>loaded.
      and_then (py_if (verbose \<noteq> 0) (print_line (''swath '' @ filename @ '' loaded''))) (\<lambda>_.
      and_then (invoke FillAllChannels (fill_all_channels env loaded)) (\<lambda>(np_swath, filled_ch_idx).
      and_then (py_if (verbose \<noteq> 0)
        (and_then (print_line (''Interpolation took '' @ interp_elapsed env @ '' s'')) (\<lambda>_.
         print_line (''Channels '' @ str_int_list filled_ch_idx @ '' are now full'')))) (\<lambda>_.
      let tag = usability_tag filled_ch_idx in
      and_then (invoke GetChannels (get_channels env myd02_filename myd06_dir)) (\<lambda>l2_channels.
      and_then (py_if (verbose \<noteq> 0) (print_line ''Level2 channels loaded'')) (\<lambda>_.
      and_then (invoke GetCloudMask (get_cloud_mask env myd02_filename myd35_dir)) (\<lambda>cm.
      and_then (py_if (verbose \<noteq> 0) (print_line ''Cloud mask loaded'')) (\<lambda>_.
      and_then
        (catch is_Exception
           (and_then (align env myd02_filename cloudsat_lidar_dir cloudsat_dir np_swath)
              (\<lambda>r. returns (Some r)))
           (\<lambda>e. and_then
              (print_line (''Couldn't extract cloudsat track of '' @ filename @ '': '' @ msg e))
              (\<lambda>_. returns None))) (\<lambda>aligned.
      and_then (py_if (verbose \<noteq> 0)
        (print_line (''Cloudsat alignment took '' @ align_elapsed env @ '' s''))) (\<lambda>_.
      and_then (lift (vstack (numpy_api env) [np_swath, l2_channels, new_axis0 cm])) (\<lambda>stacked.
      let np_swath = astype (numpy_api env) Float16 stacked in
      and_then
        (catch any_exception
           (and_then (lift (dict_update_call aligned)) (\<lambda>d. returns (Some d)))
           (\<lambda>e. returns None)) (\<lambda>cloudsat_info.
      returns (np_swath, cloudsat_info, tag, filename))))))))))))))"


section \<open>extract_swath_rbg, extract_tiles_from_swath, save_as_npy\<close>

definition invoke_fs :: "collaborator \<Rightarrow> ('fs \<Rightarrow> (exc + 'r) \<times> 'fs) \<Rightarrow> ('r, 'fs) prog" where
  \<comment> \<open>a call of a collaborator that writes\<close>
  "invoke_fs c f =
     (\<lambda>w. case f (files w) of (r, fs') \<Rightarrow> (r, w\<lparr>files := fs', calls := calls w @ [c]\<rparr>))"

definition ensure_dir :: "('a, 'v, 'fs) env \<Rightarrow> string \<Rightarrow> (unit, 'fs) prog" where
  \<comment> \<open>\<open>if not os.path.exists(d): os.makedirs(d)\<close>\<close>
  "ensure_dir env d =
     and_then (fs_read (path_exists env d)) (\<lambda>there.
     if \<not> there then fs_op (makedirs env d) else returns ())"

definition extract_swath_rbg ::
  "('a, 'v, 'fs) env \<Rightarrow> string \<Rightarrow> string \<Rightarrow> string \<Rightarrow> int \<Rightarrow> (unit, 'fs) prog" where
  "extract_swath_rbg env radiance_filepath myd03_dir save_dir0 verbose =
     (let basename = basename radiance_filepath;
          save_dir = os_path_join save_dir0 [''rgb''] in
      and_then (ensure_dir env save_dir) (\<lambda>_.
      and_then (invoke GetSwathRgb (get_swath_rgb env radiance_filepath myd03_dir)) (\<lambda>loaded.
      and_then (invoke FillAllChannels (fill_all_channels env loaded)) (\<lambda>(visual_swath, filled_ch_idx).
      if length filled_ch_idx = 3 then
        (let save_filename = os_path_join save_dir [str_replace ''.hdf'' ''.png'' basename] in
         and_then (fs_op (image_save env save_filename visual_swath)) (\<lambda>_.
         py_if (verbose > 0) (print_line (''RGB channels saved as '' @ save_filename))))
      else print_line (''Failed to interpolate RGB channels of '' @ basename)))))"

fun ensure_dirs :: "('a, 'v, 'fs) env \<Rightarrow> string list \<Rightarrow> (unit, 'fs) prog" where
  \<comment> \<open>the loop of lines 154 to 156\<close>
  "ensure_dirs env [] = returns ()"
| "ensure_dirs env (dr # drs) = and_then (ensure_dir env dr) (\<lambda>_. ensure_dirs env drs)"

definition extract_tiles_from_swath ::
  "('a, 'v, 'fs) env \<Rightarrow> 'a ndarray \<Rightarrow> string \<Rightarrow> string \<Rightarrow> int \<Rightarrow> int \<Rightarrow> (unit, 'fs) prog" where
  "extract_tiles_from_swath env np_swath swath_name save_dir tile_size verbose =
     and_then
       (catch is_ValueError
          (invoke SampleTiles (sample_labelled_and_unlabelled_tiles env np_swath tile_size))
          (\<lambda>e. and_then (print_line (''Tiles failed to extract. '' @ msg e)) (\<lambda>_.
                raises (Exc (SystemExit 0) []))))
       (\<lambda>(label_tiles, nonlabel_tiles, label_metadata, nonlabel_metadata).
     and_then (py_if (verbose > 0)
        (and_then (lift (len_array label_tiles)) (\<lambda>n_label.
         and_then (lift (len_array nonlabel_tiles)) (\<lambda>n_nonlabel.
         print_line (str_int (int n_label + int n_nonlabel) @ '' tiles extracted from swath ''
                       @ swath_name))))) (\<lambda>_.
     let label_tiles_savepath_str = os_path_join save_dir [''label'', ''tiles''];
         label_metadata_savepath_str = os_path_join save_dir [''label'', ''metadata''];
         nonlabel_tiles_savepath_str = os_path_join save_dir [''nonlabel'', ''tiles''];
         nonlabel_metadata_savepath_str = os_path_join save_dir [''nonlabel'', ''metadata''] in
     and_then (ensure_dirs env [label_tiles_savepath_str, label_metadata_savepath_str,
                                nonlabel_tiles_savepath_str, nonlabel_metadata_savepath_str]) (\<lambda>_.
     let filename_npy = str_replace ''.hdf'' ''.npy'' swath_name in
     and_then (fs_op (np_save env (os_path_join label_tiles_savepath_str [filename_npy]) label_tiles)) (\<lambda>_.
     and_then (fs_op (np_save env (os_path_join label_metadata_savepath_str [filename_npy]) label_metadata)) (\<lambda>_.
     and_then (fs_op (np_save env (os_path_join nonlabel_tiles_savepath_str [filename_npy]) nonlabel_tiles)) (\<lambda>_.
     fs_op (np_save env (os_path_join nonlabel_metadata_savepath_str [filename_npy]) nonlabel_metadata)))))))"

definition save_as_npy ::
  "('a, 'v, 'fs) env \<Rightarrow> 'a ndarray \<Rightarrow> string \<Rightarrow> string \<Rightarrow> int \<Rightarrow> (unit, 'fs) prog" where
  "save_as_npy env np_swath filename save_subdir verbose =
     (let swath_savepath_str = os_path_join save_subdir [str_replace ''.hdf'' ''.npy'' filename] in
      and_then (fs_op (np_save env swath_savepath_str np_swath)) (\<lambda>_.
      py_if (verbose \<noteq> 0) (print_line (''swath saved as '' @ swath_savepath_str))))"

section \<open>The command-line entry point\<close>

definition list_index :: "'x list \<Rightarrow> nat \<Rightarrow> exc + 'x" where
  \<comment> \<open>\<open>xs[i]\<close> for \<open>i \<ge> 0\<close>\<close>
  "list_index xs i = (if i < length xs then Inr (xs ! i) else Inl (Exc IndexError ''list index out of range''))"

definition unpack2 :: "'x list \<Rightarrow> exc + 'x \<times> 'x" where
  \<comment> \<open>\<open>a, b = xs\<close>\<close>
  "unpack2 xs =
     (case xs of
        [a, b] \<Rightarrow> Inr (a, b)
      | [] \<Rightarrow> Inl (Exc ValueError ''not enough values to unpack'')
      | [a] \<Rightarrow> Inl (Exc ValueError ''not enough values to unpack'')
      | _ \<Rightarrow> Inl (Exc ValueError ''too many values to unpack''))"

definition extract_full_swath_params :: "string list" where
  \<comment> \<open>the parameter names of line 13\<close>
  "extract_full_swath_params =
     [''myd02_filename'', ''myd03_dir'', ''myd06_dir'', ''myd35_dir'', ''cloudsat_lidar_dir'',
      ''cloudsat_dir'', ''verbose'']"

definition check_keywords :: "string \<Rightarrow> string list \<Rightarrow> string list \<Rightarrow> exc + unit" where
  \<comment> \<open>a call with a keyword that is no parameter of the function raises before the body runs\<close>
  "check_keywords fname params kws =
     (case find (\<lambda>k. k \<notin> set params) kws of
        Some k \<Rightarrow> Inl (Exc TypeError (fname @ ''() got an unexpected keyword argument '' @ k))
      | None \<Rightarrow> Inr ())"

definition month_day_of :: "string \<Rightarrow> exc + string \<times> string" where
  \<comment> \<open>line 190: \<open>month, day = root_dir.split("/")[-2:]\<close>\<close>
  "month_day_of root_dir =
     unpack2 (let parts = split_on CHR ''/'' root_dir in drop (length parts - 2) parts)"

definition save_name_of :: "string \<Rightarrow> string \<Rightarrow> string \<Rightarrow> string \<Rightarrow> string" where
  \<comment> \<open>line 194\<close>
  "save_name_of year abs_day hour minute =
     ''A'' @ year @ ''.'' @ abs_day @ ''.'' @ hour @ minute @ ''.nc''"

definition main :: "('a, 'v, 'fs) env \<Rightarrow> string list \<Rightarrow> (unit, 'fs) prog" where
  "main env argv =
     and_then (lift (list_index argv 1)) (\<lambda>save_dir.
     and_then (lift (list_index argv 2)) (\<lambda>myd02_filename.
     let (root_dir, filename) = os_path_split myd02_filename in
     and_then (lift (month_day_of root_dir)) (\<lambda>(month, day).
     and_then (invoke GetFileTimeInfo (get_file_time_info env myd02_filename))
       (\<lambda>(year, abs_day, hour, minute).
     let save_name = save_name_of year abs_day hour minute in
     and_then (fs_read (rglob env save_dir save_name)) (\<lambda>found.
     and_then (if found \<noteq> []
               then raises (Exc FileExistsError (save_name @ '' already exist. Not extracting it again.''))
               else returns ()) (\<lambda>_.
     let myd03_dir = os_path_join root_dir [''MODIS'', ''data'', ''MYD03'', ''collection61'', year, month, day];
         myd06_dir = os_path_join root_dir [''MODIS'', ''data'', ''MYD06_L2'', ''collection61'', year, month, day];
         myd35_dir = os_path_join root_dir [''MODIS'', ''data'', ''MYD35_L2'', ''collection61'', year, month, day];
         cloudsat_lidar_dir = os_path_join root_dir [''CloudSatLidar''];
         cloudsat_dir = os_path_join root_dir [''CloudSat''] in
     and_then (lift (check_keywords ''extract_full_swath'' extract_full_swath_params
                       [''save_dir'', ''verbose'', ''save''])) (\<lambda>_.
     and_then (extract_full_swath env myd02_filename myd03_dir myd06_dir myd35_dir
                 cloudsat_lidar_dir cloudsat_dir 0) (\<lambda>(np_swath, cloudsat_info, tag, swath_name).
     let save_subdir = os_path_join save_dir [tag] in
     and_then (ensure_dir env save_subdir) (\<lambda>_.
     and_then (invoke_fs SaveAsNc
                 (save_as_nc env np_swath cloudsat_info swath_name
                    (os_path_join save_subdir [save_name]))) (\<lambda>_.
     extract_swath_rbg env myd02_filename (os_path_join year [month, day]) save_subdir 0))))))))))"


section \<open>Notions used in the statements\<close>

definition ordered_indices_of :: "nat \<Rightarrow> int list \<Rightarrow> bool" where
  \<comment> \<open>Modelled from the spec: \<open>src/interpolation.py\<close> is not among the sources; the Gap
      Filler reports the ordered set of the indices of the channels of an n-channel grid
      that ended up fully valid.\<close>
  "ordered_indices_of n idx = (sorted_wrt (<) idx \<and> (\<forall>i \<in> set idx. 0 \<le> i \<and> i < int n))"

definition writes_nothing :: "('r, 'fs) prog \<Rightarrow> bool" where
  \<comment> \<open>the program leaves the file system as it found it, from whatever world it starts\<close>
  "writes_nothing m = (\<forall>w. files (snd (m w)) = files w)"


definition bare_except_caller ::
  "('a, 'v, 'fs) env \<Rightarrow> 'a ndarray \<Rightarrow> string \<Rightarrow> string \<Rightarrow> int \<Rightarrow> int \<Rightarrow> (bool, 'fs) prog" where
  \<comment> \<open>a caller of the driver, not part of \<open>pipeline.py\<close>:
      \<open>try: extract_tiles_from_swath(...); return False\<close> and \<open>except: return True\<close>.
      It returns whether an exception of the call reached it.\<close>
  "bare_except_caller env np_swath swath_name save_dir tile_size verbose =
     catch any_exception
       (and_then (extract_tiles_from_swath env np_swath swath_name save_dir tile_size verbose)
          (\<lambda>_. returns False))
       (\<lambda>e. returns True)"

definition prints_nothing :: "('r, 'fs) prog \<Rightarrow> bool" where
  \<comment> \<open>the program adds no line to the console, from whatever world it starts\<close>
  "prints_nothing m = (\<forall>w. console (snd (m w)) = console w)"

section \<open>A sample environment\<close>

text \<open>
  A small concrete run, used to instantiate the theorems: a 15-channel swath of one pixel,
  two derived channels, a mask, an aligner that finds one variable, and a file system that
  is the list of the paths that exist.
\<close>

definition grid_of :: "nat \<Rightarrow> int \<Rightarrow> int ndarray" where
  "grid_of n x = \<lparr>shape = [n, 1, 1], dtype = Float32, data = replicate n x\<rparr>"

definition sample_env :: "(int, int list, string list) env" where
  "sample_env =
     \<lparr>numpy_api = \<lparr>result_type = (\<lambda>dts. Float64), convert = (\<lambda>src dst x. x)\<rparr>,
      get_swath = (\<lambda>p d. Inr (grid_of 15 0)),
      get_swath_rgb = (\<lambda>p d. Inr (grid_of 3 0)),
      fill_all_channels = (\<lambda>a. Inr (a, if take 1 (shape a) = [15]
                                          then [0, 1, 2, 3, 4, 5, 6, 7, 8, 9, 10, 11, 12, 13, 14]
                                          else [0, 1, 2])),
      get_channels = (\<lambda>p d. Inr (grid_of 2 1)),
      get_cloud_mask = (\<lambda>p d. Inr \<lparr>shape = [1, 1], dtype = UInt8, data = [1]\<rparr>),
      get_cloudsat_mask = (\<lambda>p l c lat lon. Inr ([3, 5], [0, 4], InfoDict [(''cloud-type'', [2])])),
      sample_labelled_and_unlabelled_tiles =
        (\<lambda>a tile_size. if tile_size > 1 then Inl (Exc ValueError ''tile size exceeds swath'')
                        else Inr (grid_of 2 0, grid_of 3 0, grid_of 2 0, grid_of 3 0)),
      get_file_time_info = (\<lambda>p. Inr (''2008'', ''001'', ''12'', ''35'')),
      save_as_nc = (\<lambda>a m name path fs. (Inr (), fs @ [path])),
      path_exists = (\<lambda>p fs. p \<in> set fs),
      makedirs = (\<lambda>p fs. (Inr (), fs @ [p])),
      np_save = (\<lambda>p a fs. (Inr (), fs @ [p])),
      image_save = (\<lambda>p a fs. (Inr (), fs @ [p])),
      rglob = (\<lambda>dir pat fs. filter (\<lambda>p. take (length dir) p = dir \<and> basename p = pat) fs),
      interp_elapsed = ''0.5'',
      align_elapsed = ''0.25''\<rparr>"

definition sample_env_no_track :: "(int, int list, string list) env" where
  \<comment> \<open>the same run with an aligner that finds no track file\<close>
  "sample_env_no_track =
     sample_env\<lparr>get_cloudsat_mask :=
       \<lambda>p l c lat lon. Inl (Exc (OtherException ''FileNotFoundError'') ''no track file'')\<rparr>"

definition sample_world :: "string list world" where
  "sample_world = \<lparr>files = [''out/night/A2008.001.1235.nc''], console = [], calls = []\<rparr>"

definition sample_fused :: "int ndarray" where
  "sample_fused = \<lparr>shape = [18, 1, 1], dtype = Float16,
                    data = [0, 0, 0, 0, 0, 0, 0, 0, 0, 0, 0, 0, 0, 0, 0, 1, 1, 1]\<rparr>"

section \<open>Results of composed programs\<close>

lemma fst_and_then:
  "fst (and_then m f w) = (case fst (m w) of Inl e \<Rightarrow> Inl e | Inr x \<Rightarrow> fst (f x (snd (m w))))"
  by (simp add: and_then_def split: prod.splits sum.splits)

lemma fst_catch:
  "fst (catch h m k w) =
     (case fst (m w) of Inl e \<Rightarrow> if h (cls e) then fst (k e (snd (m w))) else Inl e | Inr x \<Rightarrow> Inr x)"
  by (simp add: catch_def split: prod.splits sum.splits)

lemma fst_basic:
  "fst (returns x w) = Inr x"
  "fst (raises e w) = Inl e"
  "fst (lift r w) = r"
  "fst (invoke c r w) = r"
  "fst (print_line s w) = Inr ()"
  "fst (py_if b (print_line s) w) = Inr ()"
  "fst (py_if b (and_then (print_line s) (\<lambda>_. print_line s')) w) = Inr ()"
  by (simp_all add: returns_def raises_def lift_def invoke_def print_line_def py_if_def and_then_def)

lemma fst_align:
  "fst (align env f l c g w) =
     (case from_end g 2 of Inl e \<Rightarrow> Inl e
      | Inr lat \<Rightarrow> (case from_end g 1 of Inl e \<Rightarrow> Inl e
           | Inr lon \<Rightarrow> get_cloudsat_mask env f l c lat lon))"
  by (simp add: align_def fst_and_then fst_basic split: sum.splits)

section \<open>Programs that leave the file system alone\<close>

lemma wn_basic:
  "writes_nothing (returns x)" "writes_nothing (raises e)" "writes_nothing (lift r)"
  "writes_nothing (invoke c r)" "writes_nothing (print_line s)"
  by (simp_all add: writes_nothing_def returns_def raises_def lift_def invoke_def print_line_def)

lemma wn_py_if: "writes_nothing m \<Longrightarrow> writes_nothing (py_if b m)"
  by (simp add: py_if_def wn_basic)

lemma wn_and_then:
  "writes_nothing m \<Longrightarrow> (\<And>x. writes_nothing (f x)) \<Longrightarrow> writes_nothing (and_then m f)"
  unfolding writes_nothing_def and_then_def
  by (auto split: prod.splits sum.splits) (metis snd_conv)+

lemma wn_catch:
  "writes_nothing m \<Longrightarrow> (\<And>e. writes_nothing (k e)) \<Longrightarrow> writes_nothing (catch h m k)"
  unfolding writes_nothing_def catch_def
  by (auto split: prod.splits sum.splits) (metis snd_conv)+

lemma wn_case_prod: "(\<And>a b. writes_nothing (f a b)) \<Longrightarrow> writes_nothing (case_prod f p)"
  by (cases p) simp

lemmas wn_rules = wn_basic wn_py_if wn_and_then wn_catch wn_case_prod

lemma writes_nothing_extract_full_swath:
  "writes_nothing (extract_full_swath env f d3 d6 d35 l c v)"
  unfolding extract_full_swath_def align_def Let_def
  by (intro wn_rules)

section \<open>The outcome of extract\_full\_swath\<close>

lemma extract_full_swath_loaded:
  assumes "get_swath env f d3 = Inr g0" "fill_all_channels env g0 = Inr (g, idx)"
    "get_channels env f d6 = Inr l2" "get_cloud_mask env f d35 = Inr cm"
  shows "fst (extract_full_swath env f d3 d6 d35 l c v w) =
     (case fst (align env f l c g w0) of
        Inl e \<Rightarrow> if is_Exception (cls e)
                 then (case vstack (numpy_api env) [g, l2, new_axis0 cm] of Inl e' \<Rightarrow> Inl e'
                       | Inr st \<Rightarrow> Inr (astype (numpy_api env) Float16 st, None, usability_tag idx, basename f))
                 else Inl e
      | Inr a \<Rightarrow> (case vstack (numpy_api env) [g, l2, new_axis0 cm] of Inl e' \<Rightarrow> Inl e'
                       | Inr st \<Rightarrow> Inr (astype (numpy_api env) Float16 st,
                             (case dict_update_call (Some a) of Inl e \<Rightarrow> None | Inr d \<Rightarrow> Some d),
                             usability_tag idx, basename f)))"
  unfolding extract_full_swath_def Let_def
  by (simp add: fst_and_then fst_catch fst_basic fst_align assms any_exception_def dict_update_call_def split: sum.splits)

lemma extract_full_swath_not_loaded:
  "get_swath env f d3 = Inl e \<Longrightarrow> fst (extract_full_swath env f d3 d6 d35 l c v w) = Inl e"
  "get_swath env f d3 = Inr g0 \<Longrightarrow> fill_all_channels env g0 = Inl e
     \<Longrightarrow> fst (extract_full_swath env f d3 d6 d35 l c v w) = Inl e"
  "get_swath env f d3 = Inr g0 \<Longrightarrow> fill_all_channels env g0 = Inr (g, idx) \<Longrightarrow> get_channels env f d6 = Inl e
     \<Longrightarrow> fst (extract_full_swath env f d3 d6 d35 l c v w) = Inl e"
  "get_swath env f d3 = Inr g0 \<Longrightarrow> fill_all_channels env g0 = Inr (g, idx) \<Longrightarrow> get_channels env f d6 = Inr l2
     \<Longrightarrow> get_cloud_mask env f d35 = Inl e
     \<Longrightarrow> fst (extract_full_swath env f d3 d6 d35 l c v w) = Inl e"
  unfolding extract_full_swath_def Let_def
  by (simp_all add: fst_and_then fst_basic)

lemma extract_full_swath_result_independent:
  "fst (extract_full_swath env f d3 d6 d35 l c v w) = fst (extract_full_swath env f d3 d6 d35 l c v' w')"
proof (cases "get_swath env f d3")
  case (Inl e)
  then show ?thesis by (simp add: extract_full_swath_not_loaded)
next
  case gs: (Inr g0)
  show ?thesis
  proof (cases "fill_all_channels env g0")
    case (Inl e)
    with gs show ?thesis by (simp add: extract_full_swath_not_loaded)
  next
    case (Inr p)
    then obtain g idx where fl: "fill_all_channels env g0 = Inr (g, idx)" by (cases p) simp
    show ?thesis
    proof (cases "get_channels env f d6")
      case (Inl e)
      with gs fl show ?thesis by (simp add: extract_full_swath_not_loaded)
    next
      case ch: (Inr l2)
      show ?thesis
      proof (cases "get_cloud_mask env f d35")
        case (Inl e)
        with gs fl ch show ?thesis by (simp add: extract_full_swath_not_loaded)
      next
        case (Inr cm)
        show ?thesis
          by (simp only: extract_full_swath_loaded [OF gs fl ch Inr, where ?w0.0 = w])
      qed
    qed
  qed
qed

lemma extract_full_swath_returned:
  assumes "fst (extract_full_swath env f d3 d6 d35 l c v w) = Inr (t, m, tag, name)"
  shows "\<exists>g0 g idx l2 cm st. get_swath env f d3 = Inr g0 \<and> fill_all_channels env g0 = Inr (g, idx)
     \<and> get_channels env f d6 = Inr l2 \<and> get_cloud_mask env f d35 = Inr cm
     \<and> vstack (numpy_api env) [g, l2, new_axis0 cm] = Inr st \<and> t = astype (numpy_api env) Float16 st
     \<and> tag = usability_tag idx \<and> name = basename f"
proof -
  obtain g0 where 1: "get_swath env f d3 = Inr g0"
    using assms by (cases "get_swath env f d3") (simp_all add: extract_full_swath_not_loaded)
  obtain g idx where 2: "fill_all_channels env g0 = Inr (g, idx)"
    using assms 1 by (cases "fill_all_channels env g0") (auto simp add: extract_full_swath_not_loaded)
  obtain l2 where 3: "get_channels env f d6 = Inr l2"
    using assms 1 2 by (cases "get_channels env f d6") (auto simp add: extract_full_swath_not_loaded)
  obtain cm where 4: "get_cloud_mask env f d35 = Inr cm"
    using assms 1 2 3 by (cases "get_cloud_mask env f d35") (auto simp add: extract_full_swath_not_loaded)
  show ?thesis
    using assms unfolding extract_full_swath_loaded [OF 1 2 3 4, of l c v w w]
    by (auto simp: 1 2 3 4 split: sum.splits if_splits)
qed


lemma sample_loads:
  "get_swath sample_env f d3 = Inr (grid_of 15 0)"
  "fill_all_channels sample_env (grid_of 15 0) = Inr (grid_of 15 0, [0, 1, 2, 3, 4, 5, 6, 7, 8, 9, 10, 11, 12, 13, 14])"
  "get_channels sample_env f d6 = Inr (grid_of 2 1)"
  "get_cloud_mask sample_env f d35 = Inr \<lparr>shape = [1, 1], dtype = UInt8, data = [1]\<rparr>"
  by (simp_all add: sample_env_def grid_of_def)

lemma sample_stack:
  "vstack (numpy_api sample_env) [grid_of 15 0, grid_of 2 1, new_axis0 \<lparr>shape = [1, 1], dtype = UInt8, data = [1]\<rparr>]
     = Inr (sample_fused\<lparr>dtype := Float64\<rparr>)"
  by (simp add: vstack_def concatenate0_def atleast_2d_def new_axis0_def grid_of_def sample_env_def
        sample_fused_def eval_nat_numeral)

lemma sample_run:
  "fst (extract_full_swath sample_env f d3 d6 d35 l c v w) =
     Inr (sample_fused, Some [(''cloud-type'', [2]), (''width-range'', [3, 5]), (''mapping'', [0, 4])],
          ''daylight'', basename f)"
  apply (subst extract_full_swath_loaded [OF sample_loads, where ?w0.0 = w])
  apply (simp only: sample_stack fst_align)
  apply (simp add: from_end_def grid_of_def sample_env_def dict_update_call_def astype_def
      sample_fused_def usability_tag_def)
  done


section \<open>The usability tag\<close>

lemma night_list: "py_range 2 7 @ py_range 8 15 = [2,3,4,5,6,8,9,10,11,12,13,14]"
  by (simp add: py_range_def)

lemma usability_tag_by_set:
  assumes "ordered_indices_of 15 idx"
  shows "usability_tag idx =
     (if set idx = {0..14} then ''daylight''
      else if set idx = {2, 3, 4, 5, 6, 8, 9, 10, 11, 12, 13, 14} then ''night''
      else ''corrupt'')"
proof -
  from assms have ss: "sorted_wrt (<) idx" and sub: "set idx \<subseteq> {0..14}"
    by (auto simp: ordered_indices_of_def)
  from ss have d: "distinct idx" and s: "sorted idx"
    by (simp_all add: strict_sorted_iff)
  have card: "card (set idx) = length idx" using d by (simp add: distinct_card)
  have full: "length idx = 15 \<longleftrightarrow> set idx = {0..14}"
  proof
    assume "length idx = 15"
    with card have "card (set idx) = card {0..14::int}" by simp
    with sub show "set idx = {0..14}" by (simp add: card_subset_eq)
  next
    assume "set idx = {0..14}"
    with card show "length idx = 15" by simp
  qed
  let ?night = "[2,3,4,5,6,8,9,10,11,12,13,14] :: int list"
  have night: "idx = ?night \<longleftrightarrow> set idx = {2, 3, 4, 5, 6, 8, 9, 10, 11, 12, 13, 14}"
  proof
    assume "idx = ?night" then show "set idx = {2, 3, 4, 5, 6, 8, 9, 10, 11, 12, 13, 14}" by simp
  next
    assume "set idx = {2, 3, 4, 5, 6, 8, 9, 10, 11, 12, 13, 14}"
    then have "set idx = set ?night" by simp
    moreover have "sorted ?night" "distinct ?night" by simp_all
    ultimately show "idx = ?night" using s d by (metis sorted_distinct_set_unique)
  qed
  show ?thesis
    unfolding usability_tag_def night_list using full night by simp
qed

lemma usability_tag_by_set_only:
  assumes "sorted_wrt (<) xs" "sorted_wrt (<) ys" "set xs = set ys"
  shows "usability_tag xs = usability_tag ys"
proof -
  have "xs = ys" using assms by (metis sorted_distinct_set_unique strict_sorted_iff)
  then show ?thesis by simp
qed

lemma usability_tag_closed: "usability_tag xs \<in> {''daylight'', ''night'', ''corrupt''}"
  by (simp add: usability_tag_def)


lemma sample_indices_ordered:
  "ordered_indices_of 15 [0, 1, 2, 3, 4, 5, 6, 7, 8, 9, 10, 11, 12, 13, 14]"
  by (simp add: ordered_indices_of_def)

text \<open>
  C1. Lines 44 to 54 compare the length of the reported list with 15 and the list itself
  with the list of the non-visible bands. The Gap Filler reports the ordered set of the
  valid channel indices; for a grid of 15 channels (the reference configuration) the tag of
  a run that returns is therefore: daylight if the reported set is the set of all channel
  indices 0..14, else night if it is exactly {2,3,4,5,6,8,9,10,11,12,13,14}, else corrupt.
\<close>

theorem tag_policy:
  assumes run: "fst (extract_full_swath env f d3 d6 d35 l c v w) = Inr (t, m, tag, name)"
    and gs: "get_swath env f d3 = Inr g0"
    and fl: "fill_all_channels env g0 = Inr (g, idx)"
    and contract: "ordered_indices_of 15 idx"
  shows "tag = (if set idx = {0..14} then ''daylight''
                else if set idx = {2, 3, 4, 5, 6, 8, 9, 10, 11, 12, 13, 14} then ''night''
                else ''corrupt'')"
proof -
  from extract_full_swath_returned [OF run] gs fl have "tag = usability_tag idx"
    by auto
  with usability_tag_by_set [OF contract] show ?thesis
    by simp
qed

theorem tag_policy_witness:
  "fst (extract_full_swath sample_env ''d/01/02/A2008001.1235.hdf'' ''geo'' ''l2'' ''mask''
          ''lidar'' ''cs'' 1 sample_world)
     = Inr (sample_fused,
            Some [(''cloud-type'', [2]), (''width-range'', [3, 5]), (''mapping'', [0, 4])],
            ''daylight'', basename ''d/01/02/A2008001.1235.hdf'')
   \<and> get_swath sample_env ''d/01/02/A2008001.1235.hdf'' ''geo'' = Inr (grid_of 15 0)
   \<and> fill_all_channels sample_env (grid_of 15 0)
       = Inr (grid_of 15 0, [0, 1, 2, 3, 4, 5, 6, 7, 8, 9, 10, 11, 12, 13, 14])
   \<and> ordered_indices_of 15 [0, 1, 2, 3, 4, 5, 6, 7, 8, 9, 10, 11, 12, 13, 14]
   \<and> ''daylight'' =
       (if set [0, 1, 2, 3, 4, 5, 6, 7, 8, 9, 10, 11, 12, 13, 14] = {0..14::int} then ''daylight''
        else if set [0, 1, 2, 3, 4, 5, 6, 7, 8, 9, 10, 11, 12, 13, 14]
                  = {2, 3, 4, 5, 6, 8, 9, 10, 11, 12, 13, 14 :: int} then ''night''
        else ''corrupt'')"
  using tag_policy [OF sample_run sample_loads(1) sample_loads(2) sample_indices_ordered]
    sample_run sample_loads(1) sample_loads(2) sample_indices_ordered
  by blast

text \<open>
  C5. The tag of a run that returns is one of daylight, night and corrupt; and two runs
  (of any two files, in any two environments) in which the Gap Filler reports ordered index
  sets that are equal as sets get the same tag.
\<close>

theorem tag_closed_and_determined:
  assumes run1: "fst (extract_full_swath env1 f1 d3 d6 d35 l c v w) = Inr (t1, m1, tag1, name1)"
    and gs1: "get_swath env1 f1 d3 = Inr g01"
    and fl1: "fill_all_channels env1 g01 = Inr (g1, idx1)"
    and run2: "fst (extract_full_swath env2 f2 d3' d6' d35' l' c' v' w') = Inr (t2, m2, tag2, name2)"
    and gs2: "get_swath env2 f2 d3' = Inr g02"
    and fl2: "fill_all_channels env2 g02 = Inr (g2, idx2)"
  shows "tag1 \<in> {''daylight'', ''night'', ''corrupt''}
     \<and> (ordered_indices_of n1 idx1 \<and> ordered_indices_of n2 idx2 \<and> set idx1 = set idx2
          \<longrightarrow> tag1 = tag2)"
proof -
  from extract_full_swath_returned [OF run1] gs1 fl1 have 1: "tag1 = usability_tag idx1"
    by auto
  from extract_full_swath_returned [OF run2] gs2 fl2 have 2: "tag2 = usability_tag idx2"
    by auto
  show ?thesis
    using 1 2 usability_tag_closed [of idx1] usability_tag_by_set_only [of idx1 idx2]
    by (auto simp: ordered_indices_of_def)
qed

theorem tag_closed_and_determined_witness:
  "''daylight'' \<in> {''daylight'', ''night'', ''corrupt''}
   \<and> ordered_indices_of 15 [0, 1, 2, 3, 4, 5, 6, 7, 8, 9, 10, 11, 12, 13, 14]
   \<and> fst (extract_full_swath sample_env ''d/01/02/A2008001.1235.hdf'' ''geo'' ''l2'' ''mask''
            ''lidar'' ''cs'' 1 sample_world)
     = Inr (sample_fused,
            Some [(''cloud-type'', [2]), (''width-range'', [3, 5]), (''mapping'', [0, 4])],
            ''daylight'', basename ''d/01/02/A2008001.1235.hdf'')
   \<and> fst (extract_full_swath sample_env ''e/03/04/A2008002.0010.hdf'' ''geo'' ''l2'' ''mask''
            ''lidar'' ''cs'' 0 sample_world)
     = Inr (sample_fused,
            Some [(''cloud-type'', [2]), (''width-range'', [3, 5]), (''mapping'', [0, 4])],
            ''daylight'', basename ''e/03/04/A2008002.0010.hdf'')"
  using tag_closed_and_determined [OF sample_run sample_loads(1) sample_loads(2)
      sample_run sample_loads(1) sample_loads(2), where ?n1.0 = 15 and ?n2.0 = 15]
    sample_run sample_indices_ordered
  by blast

section \<open>The verbosity flag\<close>

text \<open>
  C9. A run with verbose = 0 and a run with verbose = 1 from the same world give the same
  outcome (the same tensor, metadata, tag and basename, or the same exception), and both
  leave the file system as it was: the function only prints and calls its collaborators.
\<close>

theorem verbosity_no_effect:
  "fst (extract_full_swath env f d3 d6 d35 l c 0 w) = fst (extract_full_swath env f d3 d6 d35 l c 1 w)
   \<and> files (snd (extract_full_swath env f d3 d6 d35 l c 0 w)) = files w
   \<and> files (snd (extract_full_swath env f d3 d6 d35 l c 1 w)) = files w"
  using extract_full_swath_result_independent [of env f d3 d6 d35 l c 0 w 1 w]
    writes_nothing_extract_full_swath [of env f d3 d6 d35 l c 0]
    writes_nothing_extract_full_swath [of env f d3 d6 d35 l c 1]
  by (simp add: writes_nothing_def)

theorem verbosity_no_effect_witness:
  "fst (extract_full_swath sample_env ''d/01/02/A2008001.1235.hdf'' ''geo'' ''l2'' ''mask''
          ''lidar'' ''cs'' 0 sample_world)
     = Inr (sample_fused,
            Some [(''cloud-type'', [2]), (''width-range'', [3, 5]), (''mapping'', [0, 4])],
            ''daylight'', basename ''d/01/02/A2008001.1235.hdf'')
   \<and> fst (extract_full_swath sample_env ''d/01/02/A2008001.1235.hdf'' ''geo'' ''l2'' ''mask''
          ''lidar'' ''cs'' 1 sample_world)
     = Inr (sample_fused,
            Some [(''cloud-type'', [2]), (''width-range'', [3, 5]), (''mapping'', [0, 4])],
            ''daylight'', basename ''d/01/02/A2008001.1235.hdf'')
   \<and> files (snd (extract_full_swath sample_env ''d/01/02/A2008001.1235.hdf'' ''geo'' ''l2''
          ''mask'' ''lidar'' ''cs'' 1 sample_world)) = [''out/night/A2008.001.1235.nc'']"
  using verbosity_no_effect [of sample_env "''d/01/02/A2008001.1235.hdf''" "''geo''" "''l2''"
      "''mask''" "''lidar''" "''cs''" sample_world] sample_run
  by (simp add: sample_world_def)


section \<open>Stacking, alignment and metadata\<close>

lemma vstack_swath:
  assumes "shape g = [C, H, W]" "shape l2 = [D, H, W]" "shape cm = [H, W]"
  shows "vstack np [g, l2, new_axis0 cm] =
     Inr \<lparr>shape = [C + D + 1, H, W],
          dtype = result_type np [dtype g, dtype l2, dtype cm],
          data = map (convert np (dtype g) (result_type np [dtype g, dtype l2, dtype cm])) (data g)
               @ map (convert np (dtype l2) (result_type np [dtype g, dtype l2, dtype cm])) (data l2)
               @ map (convert np (dtype cm) (result_type np [dtype g, dtype l2, dtype cm])) (data cm)\<rparr>"
  using assms
  by (simp add: vstack_def concatenate0_def atleast_2d_def new_axis0_def Let_def)

lemma align_raises_Exception:
  assumes "\<forall>lat lon e. get_cloudsat_mask env f l c lat lon = Inl e \<longrightarrow> is_Exception (cls e)"
    and "fst (align env f l c g w) = Inl e"
  shows "is_Exception (cls e)"
  using assms unfolding fst_align
  by (auto simp: from_end_def Let_def split: sum.splits list.splits if_splits)

text \<open>
  C3. Valid inputs: the loaders return a Swath Grid of shape (C, H, W), derived channels of
  shape (D, H, W) and a mask of shape (H, W), and the aligner, if it raises, raises an
  instance of Exception. Then the function returns, and the returned tensor has shape
  (C + D + 1, H, W), element type float16, and as many elements as the three inputs together.
\<close>

theorem fused_tensor_shape:
  assumes gs: "get_swath env f d3 = Inr g0"
    and fl: "fill_all_channels env g0 = Inr (g, idx)"
    and ch: "get_channels env f d6 = Inr l2"
    and cmk: "get_cloud_mask env f d35 = Inr cm"
    and sg: "shape g = [C, H, W]" and sl: "shape l2 = [D, H, W]" and sc: "shape cm = [H, W]"
    and al: "\<forall>lat lon e. get_cloudsat_mask env f l c lat lon = Inl e \<longrightarrow> is_Exception (cls e)"
  shows "\<exists>t m. fst (extract_full_swath env f d3 d6 d35 l c v w)
                 = Inr (t, m, usability_tag idx, basename f)
           \<and> shape t = [C + D + 1, H, W] \<and> dtype t = Float16
           \<and> length (data t) = length (data g) + length (data l2) + length (data cm)"
proof (cases "fst (align env f l c g w)")
  case (Inl e)
  with al have "is_Exception (cls e)" by (rule align_raises_Exception)
  with Inl show ?thesis
    unfolding extract_full_swath_loaded [OF gs fl ch cmk, where ?w0.0 = w] vstack_swath [OF sg sl sc]
    by (simp add: astype_def)
next
  case (Inr a)
  then show ?thesis
    unfolding extract_full_swath_loaded [OF gs fl ch cmk, where ?w0.0 = w] vstack_swath [OF sg sl sc]
    by (simp add: astype_def)
qed

text \<open>
  C2. When the call of the Track Aligner raises an exception (an instance of Exception, which
  is what line 78 handles) and the stacking of line 88 succeeds, the function returns the
  stacked tensor, the tag and the basename with the metadata \<open>None\<close>; and the run that differs
  only in an aligner that succeeds with zero variables returns the same tensor, tag and
  basename, with the metadata holding the two reserved keys.
\<close>

theorem alignment_failure_tolerated:
  assumes gs: "get_swath env f d3 = Inr g0"
    and fl: "fill_all_channels env g0 = Inr (g, idx)"
    and ch: "get_channels env f d6 = Inr l2"
    and cmk: "get_cloud_mask env f d35 = Inr cm"
    and lat: "from_end g 2 = Inr lat" and lon: "from_end g 1 = Inr lon"
    and raised: "get_cloudsat_mask env f l c lat lon = Inl e"
    and exc: "is_Exception (cls e)"
    and stack: "vstack (numpy_api env) [g, l2, new_axis0 cm] = Inr st"
  shows "fst (extract_full_swath env f d3 d6 d35 l c v w)
           = Inr (astype (numpy_api env) Float16 st, None, usability_tag idx, basename f)
       \<and> fst (extract_full_swath (env\<lparr>get_cloudsat_mask := \<lambda>p ld cd a b. Inr (span, pm, InfoDict [])\<rparr>)
                 f d3 d6 d35 l c v w)
           = Inr (astype (numpy_api env) Float16 st,
                  Some [(''width-range'', span), (''mapping'', pm)], usability_tag idx, basename f)"
proof -
  let ?ok = "env\<lparr>get_cloudsat_mask := \<lambda>p ld cd a b. Inr (span, pm, InfoDict [])\<rparr>"
  have 1: "fst (extract_full_swath env f d3 d6 d35 l c v w)
           = Inr (astype (numpy_api env) Float16 st, None, usability_tag idx, basename f)"
    unfolding extract_full_swath_loaded [OF gs fl ch cmk, where ?w0.0 = w] fst_align lon
    by (simp add: lat raised exc stack)
  have gs': "get_swath ?ok f d3 = Inr g0" and fl': "fill_all_channels ?ok g0 = Inr (g, idx)"
    and ch': "get_channels ?ok f d6 = Inr l2" and cmk': "get_cloud_mask ?ok f d35 = Inr cm"
    using gs fl ch cmk by simp_all
  have 2: "fst (extract_full_swath ?ok f d3 d6 d35 l c v w)
           = Inr (astype (numpy_api env) Float16 st,
                  Some [(''width-range'', span), (''mapping'', pm)], usability_tag idx, basename f)"
    unfolding extract_full_swath_loaded [OF gs' fl' ch' cmk', where ?w0.0 = w] fst_align lon
    by (simp add: lat stack dict_update_call_def)
  from 1 2 show ?thesis by simp
qed

text \<open>
  C6. In a run whose loaders and stacking succeed, let r be the outcome of the aligner call.
  If r is a span, a pixel mapping and a dict d, the metadata is d updated at the two keys
  width-range and mapping, and at no other key. If the call of \<open>update\<close> of line 91 raises,
  for whatever reason (the names of line 76 unbound, \<open>None\<close>, an exception of the object's
  own \<open>update\<close>), the metadata is \<open>None\<close> and the function still returns.
\<close>

theorem metadata_merge:
  assumes gs: "get_swath env f d3 = Inr g0"
    and fl: "fill_all_channels env g0 = Inr (g, idx)"
    and ch: "get_channels env f d6 = Inr l2"
    and cmk: "get_cloud_mask env f d35 = Inr cm"
    and lat: "from_end g 2 = Inr lat" and lon: "from_end g 1 = Inr lon"
    and al: "get_cloudsat_mask env f l c lat lon = r"
    and ok: "\<forall>e. r = Inl e \<longrightarrow> is_Exception (cls e)"
    and stack: "vstack (numpy_api env) [g, l2, new_axis0 cm] = Inr st"
  shows "(\<forall>span pm d. r = Inr (span, pm, InfoDict d) \<longrightarrow>
            (\<exists>d'. fst (extract_full_swath env f d3 d6 d35 l c v w)
                     = Inr (astype (numpy_api env) Float16 st, Some d', usability_tag idx, basename f)
                 \<and> map_of d' = (map_of d)(''width-range'' \<mapsto> span, ''mapping'' \<mapsto> pm)))
       \<and> (\<forall>e'. dict_update_call (case r of Inl e \<Rightarrow> None | Inr a \<Rightarrow> Some a) = Inl e' \<longrightarrow>
            fst (extract_full_swath env f d3 d6 d35 l c v w)
              = Inr (astype (numpy_api env) Float16 st, None, usability_tag idx, basename f))"
proof (cases r)
  case (Inl e)
  with ok have "is_Exception (cls e)" by simp
  with Inl show ?thesis
    unfolding extract_full_swath_loaded [OF gs fl ch cmk, where ?w0.0 = w] fst_align lon
    by (simp add: lat al stack)
next
  case (Inr a)
  obtain span pm info where a: "a = (span, pm, info)" by (cases a) auto
  show ?thesis
    unfolding extract_full_swath_loaded [OF gs fl ch cmk, where ?w0.0 = w] fst_align lon
    by (cases info) (simp_all add: lat al stack Inr a dict_update_call_def update_conv')
qed


lemma no_track_loads:
  "get_swath sample_env_no_track f d3 = Inr (grid_of 15 0)"
  "fill_all_channels sample_env_no_track (grid_of 15 0)
     = Inr (grid_of 15 0, [0, 1, 2, 3, 4, 5, 6, 7, 8, 9, 10, 11, 12, 13, 14])"
  "get_channels sample_env_no_track f d6 = Inr (grid_of 2 1)"
  "get_cloud_mask sample_env_no_track f d35 = Inr \<lparr>shape = [1, 1], dtype = UInt8, data = [1]\<rparr>"
  using sample_loads by (simp_all add: sample_env_no_track_def)

lemma no_track_numpy: "numpy_api sample_env_no_track = numpy_api sample_env"
  by (simp add: sample_env_no_track_def)

lemma no_track_raises:
  "get_cloudsat_mask sample_env_no_track f l c lat lon
     = Inl (Exc (OtherException ''FileNotFoundError'') ''no track file'')"
  by (simp add: sample_env_no_track_def)

lemma sample_coordinates:
  "from_end (grid_of 15 0) 2 = Inr \<lparr>shape = [1, 1], dtype = Float32, data = [0]\<rparr>"
  "from_end (grid_of 15 0) 1 = Inr \<lparr>shape = [1, 1], dtype = Float32, data = [0]\<rparr>"
  by (simp_all add: from_end_def grid_of_def)

lemma sample_cast: "astype (numpy_api sample_env) Float16 (sample_fused\<lparr>dtype := Float64\<rparr>) = sample_fused"
  by (simp add: astype_def sample_fused_def sample_env_def)

lemma sample_tag: "usability_tag [0, 1, 2, 3, 4, 5, 6, 7, 8, 9, 10, 11, 12, 13, 14] = ''daylight''"
  by (simp add: usability_tag_def)

theorem fused_tensor_shape_witness:
  "shape (grid_of 15 0) = [15, 1, 1] \<and> shape (grid_of 2 1) = [2, 1, 1]
   \<and> is_Exception (OtherException ''FileNotFoundError'')
   \<and> (\<exists>t m. fst (extract_full_swath sample_env_no_track ''d/01/02/A2008001.1235.hdf'' ''geo'' ''l2''
                    ''mask'' ''lidar'' ''cs'' 1 sample_world)
               = Inr (t, m, ''daylight'', basename ''d/01/02/A2008001.1235.hdf'')
            \<and> shape t = [18, 1, 1] \<and> dtype t = Float16 \<and> length (data t) = 18)"
proof -
  have 1: "shape (grid_of 15 0) = [15, 1, 1]" and 2: "shape (grid_of 2 1) = [2, 1, 1]"
    and 3: "shape \<lparr>shape = [1, 1], dtype = UInt8, data = [1::int]\<rparr> = [1, 1]"
    by (simp_all add: grid_of_def)
  have 4: "\<forall>lat lon e. get_cloudsat_mask sample_env_no_track ''d/01/02/A2008001.1235.hdf'' ''lidar''
          ''cs'' lat lon = Inl e \<longrightarrow> is_Exception (cls e)"
    by (auto simp: no_track_raises)
  from fused_tensor_shape [where ?f = "''d/01/02/A2008001.1235.hdf''" and ?d3.0 = "''geo''" and ?d6.0 = "''l2''"
        and ?d35.0 = "''mask''" and ?l = "''lidar''" and ?c = "''cs''" and ?v = 1 and ?w = sample_world,
      OF no_track_loads 1 2 3 4]
  show ?thesis
    using 1 2 by (simp add: sample_tag grid_of_def)
qed

theorem alignment_failure_tolerated_witness:
  "is_Exception (OtherException ''FileNotFoundError'')
   \<and> fst (extract_full_swath sample_env_no_track ''d/01/02/A2008001.1235.hdf'' ''geo'' ''l2'' ''mask''
            ''lidar'' ''cs'' 1 sample_world)
       = Inr (sample_fused, None, ''daylight'', basename ''d/01/02/A2008001.1235.hdf'')
   \<and> fst (extract_full_swath
            (sample_env_no_track\<lparr>get_cloudsat_mask := \<lambda>p ld cd a b. Inr ([3, 5], [0, 4], InfoDict [])\<rparr>)
            ''d/01/02/A2008001.1235.hdf'' ''geo'' ''l2'' ''mask'' ''lidar'' ''cs'' 1 sample_world)
       = Inr (sample_fused, Some [(''width-range'', [3, 5]), (''mapping'', [0, 4])],
              ''daylight'', basename ''d/01/02/A2008001.1235.hdf'')"
proof -
  have e: "is_Exception (cls (Exc (OtherException ''FileNotFoundError'') ''no track file''))"
    by simp
  have st: "vstack (numpy_api sample_env_no_track)
      [grid_of 15 0, grid_of 2 1, new_axis0 \<lparr>shape = [1, 1], dtype = UInt8, data = [1]\<rparr>]
        = Inr (sample_fused\<lparr>dtype := Float64\<rparr>)"
    by (simp only: no_track_numpy sample_stack)
  from alignment_failure_tolerated [where ?f = "''d/01/02/A2008001.1235.hdf''" and ?d3.0 = "''geo''" and ?d6.0 = "''l2''"
        and ?d35.0 = "''mask''" and ?l = "''lidar''" and ?c = "''cs''" and ?v = 1 and ?w = sample_world
        and ?span = "[3, 5]" and ?pm = "[0, 4]",
      OF no_track_loads sample_coordinates no_track_raises e st]
  show ?thesis
    by (simp add: no_track_numpy sample_cast sample_tag)
qed

theorem metadata_merge_witness:
  "(\<exists>d'. fst (extract_full_swath sample_env ''d/01/02/A2008001.1235.hdf'' ''geo'' ''l2'' ''mask''
                 ''lidar'' ''cs'' 1 sample_world)
             = Inr (sample_fused, Some d', ''daylight'', basename ''d/01/02/A2008001.1235.hdf'')
         \<and> map_of d' = [''cloud-type'' \<mapsto> [2], ''width-range'' \<mapsto> [3, 5], ''mapping'' \<mapsto> [0, 4]])
   \<and> dict_update_call (None :: (int list \<times> int list \<times> int list info) option)
       = Inl (Exc UnboundLocalError ''local variable cloudsat_info referenced before assignment'')
   \<and> fst (extract_full_swath sample_env_no_track ''d/01/02/A2008001.1235.hdf'' ''geo'' ''l2'' ''mask''
            ''lidar'' ''cs'' 1 sample_world)
       = Inr (sample_fused, None, ''daylight'', basename ''d/01/02/A2008001.1235.hdf'')"
proof -
  have r1: "get_cloudsat_mask sample_env ''d/01/02/A2008001.1235.hdf'' ''lidar'' ''cs''
      \<lparr>shape = [1, 1], dtype = Float32, data = [0]\<rparr> \<lparr>shape = [1, 1], dtype = Float32, data = [0]\<rparr>
        = Inr ([3, 5], [0, 4], InfoDict [(''cloud-type'', [2])])"
    by (simp add: sample_env_def)
  have ok1: "\<forall>e. (Inr ([3, 5], [0, 4], InfoDict [(''cloud-type'', [2])])
               :: exc + int list \<times> int list \<times> int list info) = Inl e \<longrightarrow> is_Exception (cls e)"
    by simp
  have ok2: "\<forall>e. (Inl (Exc (OtherException ''FileNotFoundError'') ''no track file'')
               :: exc + int list \<times> int list \<times> int list info) = Inl e \<longrightarrow> is_Exception (cls e)"
    by auto
  have st: "vstack (numpy_api sample_env_no_track)
      [grid_of 15 0, grid_of 2 1, new_axis0 \<lparr>shape = [1, 1], dtype = UInt8, data = [1]\<rparr>]
        = Inr (sample_fused\<lparr>dtype := Float64\<rparr>)"
    by (simp only: no_track_numpy sample_stack)
  have un: "dict_update_call (None :: (int list \<times> int list \<times> int list info) option)
       = Inl (Exc UnboundLocalError ''local variable cloudsat_info referenced before assignment'')"
    by (simp add: dict_update_call_def)
  from metadata_merge [where ?f = "''d/01/02/A2008001.1235.hdf''" and ?d3.0 = "''geo''" and ?d6.0 = "''l2''"
        and ?d35.0 = "''mask''" and ?l = "''lidar''" and ?c = "''cs''" and ?v = 1 and ?w = sample_world,
      OF sample_loads sample_coordinates r1 ok1 sample_stack]
  have a: "\<exists>d'. fst (extract_full_swath sample_env ''d/01/02/A2008001.1235.hdf'' ''geo'' ''l2'' ''mask''
                 ''lidar'' ''cs'' 1 sample_world)
             = Inr (sample_fused, Some d', ''daylight'', basename ''d/01/02/A2008001.1235.hdf'')
         \<and> map_of d' = [''cloud-type'' \<mapsto> [2], ''width-range'' \<mapsto> [3, 5], ''mapping'' \<mapsto> [0, 4]]"
    by (simp add: sample_cast sample_tag)
  from metadata_merge [where ?f = "''d/01/02/A2008001.1235.hdf''" and ?d3.0 = "''geo''" and ?d6.0 = "''l2''"
        and ?d35.0 = "''mask''" and ?l = "''lidar''" and ?c = "''cs''" and ?v = 1 and ?w = sample_world,
      OF no_track_loads sample_coordinates no_track_raises ok2 st] un
  have b: "fst (extract_full_swath sample_env_no_track ''d/01/02/A2008001.1235.hdf'' ''geo'' ''l2'' ''mask''
            ''lidar'' ''cs'' 1 sample_world)
       = Inr (sample_fused, None, ''daylight'', basename ''d/01/02/A2008001.1235.hdf'')"
    by (simp add: no_track_numpy sample_cast sample_tag)
  from a un b show ?thesis by blast
qed



section \<open>extract\_tiles\_from\_swath\<close>

lemma and_then_returned: "m w = (Inr x, w') \<Longrightarrow> and_then m f w = f x w'"
  by (simp add: and_then_def)

lemma and_then_apply:
  "and_then m f w = (case m w of (Inl e, w') \<Rightarrow> (Inl e, w') | (Inr x, w') \<Rightarrow> f x w')"
  by (simp add: and_then_def)

lemma and_then_raised: "m w = (Inl e, w') \<Longrightarrow> and_then m f w = (Inl e, w')"
  by (simp add: and_then_def)

lemma pn_basic:
  "prints_nothing (returns x)" "prints_nothing (raises e)" "prints_nothing (lift r)"
  "prints_nothing (invoke c r)" "prints_nothing (fs_op g)" "prints_nothing (fs_read h)"
  by (simp_all add: prints_nothing_def returns_def raises_def lift_def invoke_def fs_op_def
      fs_read_def split: prod.splits)

lemma pn_and_then:
  "prints_nothing m \<Longrightarrow> (\<And>x. prints_nothing (f x)) \<Longrightarrow> prints_nothing (and_then m f)"
  unfolding prints_nothing_def and_then_def
  by (auto split: prod.splits sum.splits) (metis snd_conv)+

lemma pn_ensure_dir: "prints_nothing (ensure_dir env d)"
  unfolding ensure_dir_def by (intro pn_and_then pn_basic) (simp add: pn_basic)

lemma pn_ensure_dirs: "prints_nothing (ensure_dirs env ds)"
  by (induction ds) (simp_all add: pn_basic pn_and_then pn_ensure_dir)

lemma tiles_sampling_failed:
  assumes "sample_labelled_and_unlabelled_tiles env np_swath tile_size = Inl e"
    and "is_ValueError (cls e)"
  shows "fst (extract_tiles_from_swath env np_swath swath_name save_dir tile_size verbose w)
           = Inl (Exc (SystemExit 0) [])"
    and "files (snd (extract_tiles_from_swath env np_swath swath_name save_dir tile_size verbose w))
           = files w"
    and "console (snd (extract_tiles_from_swath env np_swath swath_name save_dir tile_size verbose w))
           = console w @ [''Tiles failed to extract. '' @ msg e]"
    and "calls (snd (extract_tiles_from_swath env np_swath swath_name save_dir tile_size verbose w))
           = calls w @ [SampleTiles]"
proof -
  have "catch is_ValueError
          (invoke SampleTiles (sample_labelled_and_unlabelled_tiles env np_swath tile_size))
          (\<lambda>e. and_then (print_line (''Tiles failed to extract. '' @ msg e)) (\<lambda>_.
                raises (Exc (SystemExit 0) []))) w
        = (Inl (Exc (SystemExit 0) []),
           w\<lparr>calls := calls w @ [SampleTiles],
             console := console w @ [''Tiles failed to extract. '' @ msg e]\<rparr>)"
    by (simp add: catch_def invoke_def and_then_def print_line_def raises_def assms)
  then have "extract_tiles_from_swath env np_swath swath_name save_dir tile_size verbose w
        = (Inl (Exc (SystemExit 0) []),
           w\<lparr>calls := calls w @ [SampleTiles],
             console := console w @ [''Tiles failed to extract. '' @ msg e]\<rparr>)"
    unfolding extract_tiles_from_swath_def by (rule and_then_raised)
  then show
    "fst (extract_tiles_from_swath env np_swath swath_name save_dir tile_size verbose w)
           = Inl (Exc (SystemExit 0) [])"
    "files (snd (extract_tiles_from_swath env np_swath swath_name save_dir tile_size verbose w))
           = files w"
    "console (snd (extract_tiles_from_swath env np_swath swath_name save_dir tile_size verbose w))
           = console w @ [''Tiles failed to extract. '' @ msg e]"
    "calls (snd (extract_tiles_from_swath env np_swath swath_name save_dir tile_size verbose w))
           = calls w @ [SampleTiles]"
    by simp_all
qed

lemma tiles_count_line:
  assumes sm: "sample_labelled_and_unlabelled_tiles env np_swath tile_size
                 = Inr (label_tiles, nonlabel_tiles, label_metadata, nonlabel_metadata)"
    and la: "len_array label_tiles = Inr a" and lb: "len_array nonlabel_tiles = Inr b"
  shows "console (snd (extract_tiles_from_swath env np_swath swath_name save_dir tile_size verbose w))
           = console w @ (if verbose > 0
                          then [str_int (int a + int b) @ '' tiles extracted from swath '' @ swath_name]
                          else [])"
proof -
  let ?w1 = "w\<lparr>calls := calls w @ [SampleTiles]\<rparr>"
  let ?w2 = "if verbose > 0
             then ?w1\<lparr>console := console w @
                    [str_int (int a + int b) @ '' tiles extracted from swath '' @ swath_name]\<rparr>
             else ?w1"
  have 1: "catch is_ValueError
          (invoke SampleTiles (sample_labelled_and_unlabelled_tiles env np_swath tile_size))
          (\<lambda>e. and_then (print_line (''Tiles failed to extract. '' @ msg e)) (\<lambda>_.
                raises (Exc (SystemExit 0) []))) w
        = (Inr (label_tiles, nonlabel_tiles, label_metadata, nonlabel_metadata), ?w1)"
    by (simp add: catch_def invoke_def sm)
  have 2: "py_if (verbose > 0)
        (and_then (lift (len_array label_tiles)) (\<lambda>n_label.
         and_then (lift (len_array nonlabel_tiles)) (\<lambda>n_nonlabel.
         print_line (str_int (int n_label + int n_nonlabel) @ '' tiles extracted from swath ''
                       @ swath_name)))) ?w1 = (Inr (), ?w2)"
    by (simp add: py_if_def and_then_def lift_def print_line_def returns_def la lb)
  have 3: "console (snd (m ?w2)) = console ?w2" if "prints_nothing m" for m :: "(unit, 'c) prog"
    using that unfolding prints_nothing_def by blast
  show ?thesis
    unfolding extract_tiles_from_swath_def
    apply (subst and_then_apply)
    apply (subst 1)
    apply (simp only: prod.case sum.case)
    apply (subst and_then_apply)
    apply (subst 2)
    apply (simp only: prod.case sum.case Let_def)
    apply (subst 3)
     apply (intro pn_and_then pn_basic pn_ensure_dirs)
    apply simp
    done
qed


lemma sample_sampling:
  "sample_labelled_and_unlabelled_tiles sample_env a 3 = Inl (Exc ValueError ''tile size exceeds swath'')"
  "sample_labelled_and_unlabelled_tiles sample_env a 1
     = Inr (grid_of 2 0, grid_of 3 0, grid_of 2 0, grid_of 3 0)"
  by (simp_all add: sample_env_def)

text \<open>
  C7. When the Tile Sampler raises a ValueError, the driver prints the line
  "Tiles failed to extract." followed by the text of the error, ends without returning, and
  leaves the file system as it was: no directory is made and no array is saved.
\<close>

theorem sampling_failure_no_partial_output:
  assumes "sample_labelled_and_unlabelled_tiles env np_swath tile_size = Inl e"
    and "is_ValueError (cls e)"
  shows "(\<exists>x. fst (extract_tiles_from_swath env np_swath swath_name save_dir tile_size verbose w)
               = Inl x)
       \<and> console (snd (extract_tiles_from_swath env np_swath swath_name save_dir tile_size verbose w))
           = console w @ [''Tiles failed to extract. '' @ msg e]
       \<and> files (snd (extract_tiles_from_swath env np_swath swath_name save_dir tile_size verbose w))
           = files w"
  using tiles_sampling_failed [OF assms] by simp

theorem sampling_failure_no_partial_output_witness:
  "is_ValueError (cls (Exc ValueError ''tile size exceeds swath''))
   \<and> (\<exists>x. fst (extract_tiles_from_swath sample_env sample_fused ''A2008001.1235.hdf'' ''out'' 3 1
                 sample_world) = Inl x)
   \<and> console (snd (extract_tiles_from_swath sample_env sample_fused ''A2008001.1235.hdf'' ''out'' 3 1
                 sample_world))
       = [''Tiles failed to extract. tile size exceeds swath'']
   \<and> files (snd (extract_tiles_from_swath sample_env sample_fused ''A2008001.1235.hdf'' ''out'' 3 1
                 sample_world))
       = [''out/night/A2008.001.1235.nc'']"
proof -
  have v: "is_ValueError (cls (Exc ValueError ''tile size exceeds swath''))"
    by (simp add: is_ValueError_def)
  from sampling_failure_no_partial_output [OF sample_sampling(1) v,
      where ?swath_name = "''A2008001.1235.hdf''" and ?save_dir = "''out''" and ?verbose = 1
        and ?w = sample_world and ?np_swath = sample_fused] v
  show ?thesis
    by (simp add: sample_world_def)
qed

text \<open>
  C10, as amended. When the Tile Sampler raises a ValueError, the driver calls \<open>exit(0)\<close>,
  which raises \<open>SystemExit\<close> with code 0 in the caller. The driver does not return, and what
  reaches the caller is neither the ValueError nor any instance of Exception: a caller that
  handles Exception does not intercept it, and the process then ends with status 0. It is
  still an exception in the caller: a caller with a bare \<open>except\<close> (or one for
  \<open>SystemExit\<close> or \<open>BaseException\<close>) gets it in its handler, from the world the driver left.
\<close>

theorem sampling_failure_exits_zero:
  assumes "sample_labelled_and_unlabelled_tiles env np_swath tile_size = Inl e"
    and "is_ValueError (cls e)"
  shows "fst (extract_tiles_from_swath env np_swath swath_name save_dir tile_size verbose w)
           = Inl (Exc (SystemExit 0) [])
       \<and> \<not> is_Exception (SystemExit 0)
       \<and> fst (extract_tiles_from_swath env np_swath swath_name save_dir tile_size verbose w) \<noteq> Inl e
       \<and> (\<forall>x. fst (extract_tiles_from_swath env np_swath swath_name save_dir tile_size verbose w)
                 \<noteq> Inr x)
       \<and> (\<forall>h. fst (catch is_Exception
                      (extract_tiles_from_swath env np_swath swath_name save_dir tile_size verbose)
                      h w)
                 = Inl (Exc (SystemExit 0) []))
       \<and> (\<forall>h. catch any_exception
                 (extract_tiles_from_swath env np_swath swath_name save_dir tile_size verbose) h w
               = h (Exc (SystemExit 0) [])
                   (snd (extract_tiles_from_swath env np_swath swath_name save_dir tile_size verbose w)))"
proof -
  let ?run = "extract_tiles_from_swath env np_swath swath_name save_dir tile_size verbose"
  have out: "fst (?run w) = Inl (Exc (SystemExit 0) [])"
    by (rule tiles_sampling_failed(1) [OF assms])
  then have whole: "?run w = (Inl (Exc (SystemExit 0) []), snd (?run w))"
    by (metis prod.collapse)
  have a: "fst (catch is_Exception ?run h w) = Inl (Exc (SystemExit 0) [])" for h
    by (subst catch_def, subst whole) simp
  have b: "catch any_exception ?run h w = h (Exc (SystemExit 0) []) (snd (?run w))" for h
    by (subst catch_def, subst whole) (simp add: any_exception_def)
  from out assms(2) a b show ?thesis
    by (auto simp: is_ValueError_def)
qed

theorem sampling_failure_exits_zero_witness:
  "is_ValueError (cls (Exc ValueError ''tile size exceeds swath''))
   \<and> fst (extract_tiles_from_swath sample_env sample_fused ''A2008001.1235.hdf'' ''out'' 3 0
            sample_world) = Inl (Exc (SystemExit 0) [])"
proof -
  have v: "is_ValueError (cls (Exc ValueError ''tile size exceeds swath''))"
    by (simp add: is_ValueError_def)
  from sampling_failure_exits_zero [OF sample_sampling(1) v,
      where ?swath_name = "''A2008001.1235.hdf''" and ?save_dir = "''out''" and ?verbose = 0
        and ?w = sample_world and ?np_swath = sample_fused] v
  show ?thesis
    by simp
qed

text \<open>
  C10 as first stated says that the failure ends the process rather than raising in the
  caller, and that no caller can observe it through an exception. On the sample swath with
  tile size 3 the sampler raises a ValueError, the outcome of the driver is an exception
  handed to its caller, and the caller with a bare \<open>except\<close> observes it and returns.
\<close>

theorem sampling_failure_observed_by_caller:
  "sample_labelled_and_unlabelled_tiles sample_env sample_fused 3
     = Inl (Exc ValueError ''tile size exceeds swath'')
   \<and> fst (extract_tiles_from_swath sample_env sample_fused ''A2008001.1235.hdf'' ''out'' 3 0
            sample_world) = Inl (Exc (SystemExit 0) [])
   \<and> fst (bare_except_caller sample_env sample_fused ''A2008001.1235.hdf'' ''out'' 3 0
            sample_world) = Inr True"
proof -
  have v: "is_ValueError (cls (Exc ValueError ''tile size exceeds swath''))"
    by (simp add: is_ValueError_def)
  have out: "fst (extract_tiles_from_swath sample_env sample_fused ''A2008001.1235.hdf'' ''out'' 3 0
            sample_world) = Inl (Exc (SystemExit 0) [])"
    by (rule tiles_sampling_failed(1) [OF sample_sampling(1) v])
  have "fst (bare_except_caller sample_env sample_fused ''A2008001.1235.hdf'' ''out'' 3 0
            sample_world) = Inr True"
    unfolding bare_except_caller_def
    by (simp only: fst_catch fst_and_then out sum.case any_exception_def if_True fst_basic)
  with out sample_sampling(1) show ?thesis
    by simp
qed

text \<open>
  C8. When the Tile Sampler returns and the two tile batches have lengths a and b, the
  driver's console output is, for verbose > 0, the one line that reports a + b tiles for the
  swath, and nothing otherwise: the only count the driver reports is the sum of the numbers
  of labelled and of unlabelled tiles, whatever happens when the batches are saved.
\<close>

theorem reported_tile_count:
  assumes "sample_labelled_and_unlabelled_tiles env np_swath tile_size
             = Inr (label_tiles, nonlabel_tiles, label_metadata, nonlabel_metadata)"
    and "len_array label_tiles = Inr a" and "len_array nonlabel_tiles = Inr b"
  shows "console (snd (extract_tiles_from_swath env np_swath swath_name save_dir tile_size verbose w))
           = console w @ (if verbose > 0
                          then [str_int (int a + int b) @ '' tiles extracted from swath '' @ swath_name]
                          else [])"
  using assms by (rule tiles_count_line)

theorem reported_tile_count_witness:
  "len_array (grid_of 2 0) = Inr 2 \<and> len_array (grid_of 3 0) = Inr 3
   \<and> console (snd (extract_tiles_from_swath sample_env sample_fused ''A2008001.1235.hdf'' ''out'' 1 1
                 sample_world))
       = [''5 tiles extracted from swath A2008001.1235.hdf'']"
proof -
  have a: "len_array (grid_of 2 0) = Inr 2" and b: "len_array (grid_of 3 0) = Inr 3"
    by (simp_all add: len_array_def grid_of_def)
  from reported_tile_count [OF sample_sampling(2) a b,
      where ?swath_name = "''A2008001.1235.hdf''" and ?save_dir = "''out''" and ?verbose = 1
        and ?w = sample_world and ?np_swath = sample_fused] a b
  show ?thesis
    by (simp add: sample_world_def str_int_def str_nat.simps digit_char_def)
qed

section \<open>The entry point\<close>

lemma main_duplicate:
  assumes time: "get_file_time_info env myd02_filename = Inr (year, abs_day, hour, minute)"
    and found: "rglob env save_dir (save_name_of year abs_day hour minute) (files w) \<noteq> []"
  shows "main env (prog # save_dir # myd02_filename # rest) w =
     (case month_day_of (fst (os_path_split myd02_filename)) of
        Inl e \<Rightarrow> (Inl e, w)
      | Inr md \<Rightarrow>
          (Inl (Exc FileExistsError
                 (save_name_of year abs_day hour minute @ '' already exist. Not extracting it again.'')),
           w\<lparr>calls := calls w @ [GetFileTimeInfo]\<rparr>))"
proof (cases "month_day_of (fst (os_path_split myd02_filename))")
  case (Inl e)
  then show ?thesis
    unfolding main_def
    by (simp add: list_index_def lift_def and_then_def case_prod_unfold)
next
  case (Inr md)
  then show ?thesis
    unfolding main_def
    by (simp add: list_index_def lift_def and_then_def invoke_def fs_read_def raises_def time found
        case_prod_unfold Let_def)
qed


text \<open>
  C4. The entry point is run with an output root and an input file whose time information
  is (year, day of year, hour, minute), and the recursive search of the output root for the
  canonical name built from them finds something. Then the run ends with an exception
  (FileExistsError, or the ValueError of line 190 when the input path has no two directory
  levels), the file system and the console are as before, and the only call made into the
  other modules is the one that reads the time information from the file name: no loader
  is called.
\<close>

theorem duplicate_output_refused:
  assumes "get_file_time_info env myd02_filename = Inr (year, abs_day, hour, minute)"
    and "rglob env save_dir (save_name_of year abs_day hour minute) (files w) \<noteq> []"
  shows "fst (main env (prog # save_dir # myd02_filename # rest) w)
           = Inl (case month_day_of (fst (os_path_split myd02_filename)) of
                    Inl e \<Rightarrow> e
                  | Inr md \<Rightarrow> Exc FileExistsError
                      (save_name_of year abs_day hour minute
                         @ '' already exist. Not extracting it again.''))
       \<and> files (snd (main env (prog # save_dir # myd02_filename # rest) w)) = files w
       \<and> console (snd (main env (prog # save_dir # myd02_filename # rest) w)) = console w
       \<and> calls (snd (main env (prog # save_dir # myd02_filename # rest) w))
           = calls w @ (case month_day_of (fst (os_path_split myd02_filename)) of
                          Inl e \<Rightarrow> []
                        | Inr md \<Rightarrow> [GetFileTimeInfo])"
  unfolding main_duplicate [OF assms]
  by (simp split: sum.splits)

lemma sample_month_day: "month_day_of (fst (os_path_split ''d/01/02/A2008001.1235.hdf'')) = Inr (''01'', ''02'')"
  by (simp add: month_day_of_def os_path_split_def basename_def unpack2_def Let_def)

theorem duplicate_output_refused_witness:
  "get_file_time_info sample_env ''d/01/02/A2008001.1235.hdf'' = Inr (''2008'', ''001'', ''12'', ''35'')
   \<and> rglob sample_env ''out'' (save_name_of ''2008'' ''001'' ''12'' ''35'') (files sample_world)
        = [''out/night/A2008.001.1235.nc'']
   \<and> fst (main sample_env [''pipeline.py'', ''out'', ''d/01/02/A2008001.1235.hdf''] sample_world)
        = Inl (Exc FileExistsError ''A2008.001.1235.nc already exist. Not extracting it again.'')
   \<and> files (snd (main sample_env [''pipeline.py'', ''out'', ''d/01/02/A2008001.1235.hdf''] sample_world))
        = [''out/night/A2008.001.1235.nc'']
   \<and> calls (snd (main sample_env [''pipeline.py'', ''out'', ''d/01/02/A2008001.1235.hdf''] sample_world))
        = [GetFileTimeInfo]"
proof -
  have t: "get_file_time_info sample_env ''d/01/02/A2008001.1235.hdf''
             = Inr (''2008'', ''001'', ''12'', ''35'')"
    by (simp add: sample_env_def)
  have r: "rglob sample_env ''out'' (save_name_of ''2008'' ''001'' ''12'' ''35'') (files sample_world)
             = [''out/night/A2008.001.1235.nc'']"
    by (simp add: sample_env_def sample_world_def save_name_of_def basename_def)
  then have f: "rglob sample_env ''out'' (save_name_of ''2008'' ''001'' ''12'' ''35'') (files sample_world)
             \<noteq> []"
    by simp
  from duplicate_output_refused [OF t f, where ?prog = "''pipeline.py''" and ?rest = "[]"] t r
  show ?thesis
    by (simp add: sample_month_day save_name_of_def sample_world_def)
qed

end
